theory Spec2Isabelle
  imports Main "HOL-Library.AList"
begin

section \<open>Python values, exceptions and the ORM metadata\<close>

text \<open>
  The program is one Python module, \<^verbatim>\<open>tables.py\<close>: a declarative schema (Item, Account,
  Order, OrderItem), a converter registry (\<^verbatim>\<open>ModelTableConverterBase\<close>), a view class that
  renders the schema's tables as HTML (\<^verbatim>\<open>MetadataView\<close>) and a command that seeds the
  database. Every exception the module can raise is a value of \<open>error\<close>; a function that
  can raise returns \<open>error + 'a\<close>, with \<open>Inl\<close> for the exception. A dictionary is an
  association list in insertion order: \<open>map_of\<close> reads a key and \<open>AList.update\<close> stores
  one as \<^verbatim>\<open>d[k] = v\<close> does.
\<close>

datatype error =
    NameError string
  | AttributeError string
  | TypeError string
  | KeyError string
  | IndexError
  | ModelTableConversionError string
  | HTTPException nat
  | IntegrityError string
  | ArgumentError string
  | BuildError string

text \<open>
  A Python class as far as the module looks at it: \<^verbatim>\<open>__module__\<close> and \<^verbatim>\<open>__name__\<close>.
\<close>

record pyclass =
  cls_module :: string
  cls_name :: string

text \<open>
  A column: its name, the class of its type (\<^verbatim>\<open>type(column.type)\<close>) with the rest of that
  class's method resolution order, and its \<^verbatim>\<open>info\<close> dictionary (a dictionary of
  dictionaries of strings, as the schema declares it).
\<close>

record column =
  column_name :: string
  column_type :: pyclass
  column_type_bases :: "pyclass list"
  info :: "(string \<times> (string \<times> string) list) list"

datatype direction = ONETOMANY | MANYTOONE | MANYTOMANY

text \<open>
  A mapped property. The module tells the kinds apart with \<^verbatim>\<open>hasattr\<close>: a column
  property has \<^verbatim>\<open>columns\<close>, a relationship has \<^verbatim>\<open>direction\<close> (and
  \<^verbatim>\<open>mapper.class_\<close>, given here by the name of the referenced class), any other
  mapper property has neither. All of them have a \<^verbatim>\<open>key\<close>.
\<close>

datatype mprop =
    ColumnProperty string "column list"
  | RelationshipProperty string direction string
  | OtherProperty string

fun key :: "mprop \<Rightarrow> string" where
  "key (ColumnProperty k cols) = k"
| "key (RelationshipProperty k d target) = k"
| "key (OtherProperty k) = k"

fun has_columns :: "mprop \<Rightarrow> bool" where
  "has_columns (ColumnProperty k cols) = True"
| "has_columns (RelationshipProperty k d target) = False"
| "has_columns (OtherProperty k) = False"

fun has_direction :: "mprop \<Rightarrow> bool" where
  "has_direction (ColumnProperty k cols) = False"
| "has_direction (RelationshipProperty k d target) = True"
| "has_direction (OtherProperty k) = False"

text \<open>
  A mapped class together with its mapper (\<^verbatim>\<open>sa.inspect(model)\<close> and
  \<^verbatim>\<open>mapper.class_\<close> go from one to the other): the class's \<^verbatim>\<open>__name__\<close>, the name of
  the table it is mapped to and the mapper's properties in the order of
  \<^verbatim>\<open>mapper.attrs\<close>.
\<close>

record model =
  model_name :: string
  tablename :: string
  attrs :: "mprop list"

text \<open>
  A declarative base: the mappers of its registry and the table names of its metadata (a
  dictionary, so the names are in insertion order).
\<close>

record base =
  mappers :: "model list"
  tables :: "string list"

section \<open>The schema\<close>

text \<open>
  The classes of the column types, with their method resolution order, as SQLAlchemy
  declares them. \<^verbatim>\<open>Text\<close> is not used by the schema; it is the library's subclass of
  \<^verbatim>\<open>String\<close>.
\<close>

definition type_engine_mro :: "pyclass list" where
  "type_engine_mro =
     [\<lparr>cls_module = ''sqlalchemy.sql.type_api'', cls_name = ''TypeEngineMixin''\<rparr>,
      \<lparr>cls_module = ''sqlalchemy.sql.type_api'', cls_name = ''TypeEngine''\<rparr>,
      \<lparr>cls_module = ''sqlalchemy.sql.visitors'', cls_name = ''Visitable''\<rparr>,
      \<lparr>cls_module = ''typing'', cls_name = ''Generic''\<rparr>,
      \<lparr>cls_module = ''builtins'', cls_name = ''object''\<rparr>]"

definition Integer_class :: pyclass where
  "Integer_class = \<lparr>cls_module = ''sqlalchemy.sql.sqltypes'', cls_name = ''Integer''\<rparr>"

definition Integer_bases :: "pyclass list" where
  "Integer_bases =
     \<lparr>cls_module = ''sqlalchemy.sql.sqltypes'', cls_name = ''HasExpressionLookup''\<rparr> # type_engine_mro"

definition String_class :: pyclass where
  "String_class = \<lparr>cls_module = ''sqlalchemy.sql.sqltypes'', cls_name = ''String''\<rparr>"

definition String_bases :: "pyclass list" where
  "String_bases =
     \<lparr>cls_module = ''sqlalchemy.sql.sqltypes'', cls_name = ''Concatenable''\<rparr> # type_engine_mro"

definition Text_class :: pyclass where
  "Text_class = \<lparr>cls_module = ''sqlalchemy.sql.sqltypes'', cls_name = ''Text''\<rparr>"

definition Text_bases :: "pyclass list" where
  "Text_bases = String_class # String_bases"

definition integer_column :: "string \<Rightarrow> (string \<times> (string \<times> string) list) list \<Rightarrow> column" where
  "integer_column name column_info =
     \<lparr>column_name = name, column_type = Integer_class, column_type_bases = Integer_bases, info = column_info\<rparr>"

definition string_column :: "string \<Rightarrow> (string \<times> (string \<times> string) list) list \<Rightarrow> column" where
  "string_column name column_info =
     \<lparr>column_name = name, column_type = String_class, column_type_bases = String_bases, info = column_info\<rparr>"

text \<open>
  The four mapped classes. A column declared without a name takes the name of its
  attribute; a foreign key column declared without a type takes the type of the column it
  refers to. The mapper configures the relationships before the columns of the table; no
  statement below depends on that order.
\<close>

definition Item :: model where
  "Item =
     \<lparr>model_name = ''Item'', tablename = ''items'',
      attrs =
        [ColumnProperty ''id'' [integer_column ''id'' []],
         ColumnProperty ''name'' [string_column ''name'' [(''th'', [(''text'', ''Name'')])]],
         ColumnProperty ''price'' [integer_column ''price'' [(''th'', [(''text'', ''Price'')])]]]\<rparr>"

definition Account :: model where
  "Account =
     \<lparr>model_name = ''Account'', tablename = ''accounts'',
      attrs =
        [RelationshipProperty ''orders'' ONETOMANY ''Order'',
         ColumnProperty ''id'' [integer_column ''id'' []],
         ColumnProperty ''name'' [string_column ''name'' [(''th'', [(''text'', ''Name'')])]]]\<rparr>"

definition Order :: model where
  "Order =
     \<lparr>model_name = ''Order'', tablename = ''orders'',
      attrs =
        [RelationshipProperty ''account'' MANYTOONE ''Account'',
         RelationshipProperty ''items'' MANYTOMANY ''Item'',
         ColumnProperty ''id'' [integer_column ''id'' []],
         ColumnProperty ''account_id'' [integer_column ''account_id'' []]]\<rparr>"

definition OrderItem :: model where
  "OrderItem =
     \<lparr>model_name = ''OrderItem'', tablename = ''orders_items'',
      attrs =
        [ColumnProperty ''id'' [integer_column ''id'' []],
         ColumnProperty ''order_id'' [integer_column ''order_id'' []],
         ColumnProperty ''item_id'' [integer_column ''item_id'' []]]\<rparr>"

definition Base :: base where
  "Base =
     \<lparr>mappers = [Item, Account, Order, OrderItem],
      tables = [''items'', ''accounts'', ''orders'', ''orders_items'']\<rparr>"

text \<open>
  The names bound in the module's namespace once it is loaded: its imports
  (\<^verbatim>\<open>import sqlalchemy as sa\<close> binds \<^verbatim>\<open>sa\<close>, \<^verbatim>\<open>import sqlalchemy.orm\<close> and
  \<^verbatim>\<open>import flask.views\<close> bind the top packages) and its own top-level definitions. A
  function that reads any other global name raises \<^verbatim>\<open>NameError\<close>.
\<close>

definition module_globals :: "string list" where
  "module_globals =
     [''os'', ''flask'', ''markupsafe'', ''sa'', ''sqlalchemy'', ''wtforms'',
      ''Base'', ''Item'', ''Account'', ''Order'', ''OrderItem'', ''Table'',
      ''ModelTableConversionError'', ''ModelTableConverterBase'', ''converts'',
      ''ModelTableConverter'', ''MetadataView'', ''mapped_class_from_tablename'',
      ''model_columns'', ''model_table'', ''key_from_property'', ''th_from_property'',
      ''ul'', ''td'', ''html_table'', ''item_table'', ''database'', ''engine'',
      ''add_commands'', ''add_pluggables'', ''create_app'']"

definition lookup_global :: "string \<Rightarrow> error + unit" where
  "lookup_global name = (if name \<in> set module_globals then Inr () else Inl (NameError name))"

section \<open>The converter registry\<close>

text \<open>
  An attribute of a converter object, as \<^verbatim>\<open>__init__\<close> sees it through
  \<^verbatim>\<open>getattr(self, name)\<close>: its name and, when it has one, its \<^verbatim>\<open>_converter_for\<close>
  attribute. The handlers are such attributes.
\<close>

record handler =
  handler_name :: string
  converter_for :: "string list option"

text \<open>
  The decorator: \<^verbatim>\<open>converts(*args)\<close> returns \<^verbatim>\<open>_inner\<close>, and \<^verbatim>\<open>_inner(func)\<close> returns
  \<^verbatim>\<open>func\<close> as it is.
\<close>

definition converts :: "string list \<Rightarrow> handler \<Rightarrow> handler" where
  "converts args func = func"

text \<open>
  A converter object. \<^verbatim>\<open>__init__\<close> assigns \<^verbatim>\<open>self.use_mro\<close> and nothing else, so the
  attribute \<^verbatim>\<open>converters\<close> is there only when a caller has assigned it afterwards:
  \<open>None\<close> is the missing attribute.
\<close>

record ModelTableConverterBase =
  self_use_mro :: bool
  self_converters :: "(string \<times> handler) list option"

text \<open>
  \<^verbatim>\<open>__init__\<close>: the loop over \<^verbatim>\<open>dir(self)\<close> stores into the dictionary named by the
  parameter \<^verbatim>\<open>converters\<close> (the caller's dictionary when it is given and not empty, a
  new one otherwise). The result is the object and the final value of that dictionary.
\<close>

definition scan_handlers :: "handler list \<Rightarrow> (string \<times> handler) list \<Rightarrow> (string \<times> handler) list" where
  "scan_handlers dir_self converters =
     foldl (\<lambda>converters obj.
              case converter_for obj of
                None \<Rightarrow> converters
              | Some names \<Rightarrow> foldl (\<lambda>converters classname. AList.update classname obj converters) converters names)
       converters dir_self"

definition init :: "handler list \<Rightarrow> (string \<times> handler) list option \<Rightarrow> bool
    \<Rightarrow> ModelTableConverterBase \<times> (string \<times> handler) list" where
  "init dir_self converters use_mro =
     (let self = \<lparr>self_use_mro = use_mro, self_converters = None\<rparr>;
          converters = (case converters of
                          None \<Rightarrow> []
                        | Some c \<Rightarrow> if c = [] then [] else c)
      in (self, scan_handlers dir_self converters))"

text \<open>
  \<^verbatim>\<open>ModelTableConverter\<close>: its one handler, decorated with \<^verbatim>\<open>@converts('String')\<close>, and
  what \<^verbatim>\<open>dir(self)\<close> lists for an instance (the attributes every object has, then the
  class's methods and the instance's \<^verbatim>\<open>use_mro\<close>; none of them has a
  \<^verbatim>\<open>_converter_for\<close> attribute).
\<close>

definition plain_attribute :: "string \<Rightarrow> handler" where
  "plain_attribute name = \<lparr>handler_name = name, converter_for = None\<rparr>"

definition conv_String :: handler where
  "conv_String = converts [''String''] (plain_attribute ''conv_String'')"

definition ModelTableConverter_dir :: "handler list" where
  "ModelTableConverter_dir =
     map plain_attribute
       [''__class__'', ''__delattr__'', ''__dict__'', ''__dir__'', ''__doc__'', ''__eq__'',
        ''__format__'', ''__ge__'', ''__getattribute__'', ''__getstate__'', ''__gt__'',
        ''__hash__'', ''__init__'', ''__init_subclass__'', ''__le__'', ''__lt__'',
        ''__module__'', ''__ne__'', ''__new__'', ''__reduce__'', ''__reduce_ex__'',
        ''__repr__'', ''__setattr__'', ''__sizeof__'', ''__str__'', ''__subclasshook__'',
        ''__weakref__'']
     @ [conv_String, plain_attribute ''convert'', plain_attribute ''get_converter'',
        plain_attribute ''use_mro'']"

definition ModelTableConverter_init :: "(string \<times> handler) list option \<Rightarrow> bool
    \<Rightarrow> ModelTableConverterBase \<times> (string \<times> handler) list" where
  "ModelTableConverter_init extra_converters use_mro =
     init ModelTableConverter_dir extra_converters use_mro"

text \<open>
  \<^verbatim>\<open>get_converter\<close>. The key of the first search is \<^verbatim>\<open>__module__\<close>, a dot and
  \<^verbatim>\<open>__name__\<close>, without its first 11 characters when it starts with
  \<^verbatim>\<open>sqlalchemy.\<close>; each pass of either loop reads \<^verbatim>\<open>self.converters\<close>.
\<close>

definition type_string :: "pyclass \<Rightarrow> string" where
  "type_string col_type =
     (let qualified = cls_module col_type @ ''.'' @ cls_name col_type
      in if take 11 qualified = ''sqlalchemy.'' then drop 11 qualified else qualified)"

fun search_by_module_and_name :: "ModelTableConverterBase \<Rightarrow> pyclass list \<Rightarrow> error + handler option" where
  "search_by_module_and_name self [] = Inr None"
| "search_by_module_and_name self (col_type # types) =
     (case self_converters self of
        None \<Rightarrow> Inl (AttributeError ''converters'')
      | Some converters \<Rightarrow>
          (case map_of converters (type_string col_type) of
             Some converter \<Rightarrow> Inr (Some converter)
           | None \<Rightarrow> search_by_module_and_name self types))"

fun search_by_name :: "ModelTableConverterBase \<Rightarrow> pyclass list \<Rightarrow> error + handler option" where
  "search_by_name self [] = Inr None"
| "search_by_name self (col_type # types) =
     (case self_converters self of
        None \<Rightarrow> Inl (AttributeError ''converters'')
      | Some converters \<Rightarrow>
          (case map_of converters (cls_name col_type) of
             Some converter \<Rightarrow> Inr (Some converter)
           | None \<Rightarrow> search_by_name self types))"

text \<open>
  The message of the final \<^verbatim>\<open>raise\<close> is an f-string with the replacement field
  \<^verbatim>\<open>{types[0]:r}\<close>: it formats the class \<^verbatim>\<open>types[0]\<close> with the format specification
  \<^verbatim>\<open>r\<close>. A class has no \<^verbatim>\<open>__format__\<close> of its own, and \<^verbatim>\<open>object.__format__\<close> raises
  \<^verbatim>\<open>TypeError\<close> for every specification but the empty one.
\<close>

definition format_class :: "pyclass \<Rightarrow> string \<Rightarrow> error + string" where
  "format_class c spec =
     (if spec = [] then Inr (''<class '' @ [CHR 0x27] @ cls_module c @ ''.'' @ cls_name c @ [CHR 0x27] @ ''>'')
      else Inl (TypeError ''unsupported format string passed to type.__format__''))"

definition no_converter_found :: "column \<Rightarrow> pyclass list \<Rightarrow> error" where
  "no_converter_found column types =
     (case types of
        [] \<Rightarrow> IndexError
      | t # ts \<Rightarrow>
          (case format_class t ''r'' of
             Inl e \<Rightarrow> e
           | Inr text \<Rightarrow>
               ModelTableConversionError
                 (''No converter found for '' @ column_name column @ '' ('' @ text @ '')'')))"

definition getmro :: "column \<Rightarrow> error + pyclass list" where
  "getmro column =
     (case lookup_global ''inspect'' of
        Inl e \<Rightarrow> Inl e
      | Inr u \<Rightarrow> Inr (column_type column # column_type_bases column))"

definition get_converter :: "ModelTableConverterBase \<Rightarrow> column \<Rightarrow> error + handler" where
  "get_converter self column =
     (case (if self_use_mro self then getmro column else Inr [column_type column]) of
        Inl e \<Rightarrow> Inl e
      | Inr types \<Rightarrow>
          (case search_by_module_and_name self types of
             Inl e \<Rightarrow> Inl e
           | Inr (Some converter) \<Rightarrow> Inr converter
           | Inr None \<Rightarrow>
               (case search_by_name self types of
                  Inl e \<Rightarrow> Inl e
                | Inr (Some converter) \<Rightarrow> Inr converter
                | Inr None \<Rightarrow> Inl (no_converter_found column types))))"

text \<open>
  \<^verbatim>\<open>convert\<close>. The local \<^verbatim>\<open>converter\<close> is \<^verbatim>\<open>None\<close> unless the property is a
  relationship, so the final call raises \<^verbatim>\<open>TypeError\<close> for a column property. The result
  says whether the method returned \<^verbatim>\<open>None\<close> at once or called a handler.
\<close>

datatype outcome = Returned_None | Invoked handler

fun columns :: "mprop \<Rightarrow> column list" where
  "columns (ColumnProperty k cols) = cols"
| "columns (RelationshipProperty k d target) = []"
| "columns (OtherProperty k) = []"

fun direction_name :: "direction \<Rightarrow> string" where
  "direction_name ONETOMANY = ''ONETOMANY''"
| "direction_name MANYTOONE = ''MANYTOONE''"
| "direction_name MANYTOMANY = ''MANYTOMANY''"

definition convert :: "ModelTableConverterBase \<Rightarrow> model \<Rightarrow> model \<Rightarrow> mprop
    \<Rightarrow> (string \<times> string) list option \<Rightarrow> 's option \<Rightarrow> error + outcome" where
  "convert self model mapper prop field_args db_session =
     (if \<not> has_columns prop \<and> \<not> has_direction prop then Inr Returned_None
      else if \<not> has_direction prop \<and> length (columns prop) \<noteq> 1
        then Inl (TypeError ''Multiple-column properties not supported.'')
      else
        (let kwargs = (case field_args of
                         None \<Rightarrow> []
                       | Some args \<Rightarrow> if args = [] then [] else args)
         in case prop of
              RelationshipProperty k d target \<Rightarrow>
                (case db_session of
                   None \<Rightarrow>
                     Inl (ModelTableConversionError
                            (''Cannot convert field '' @ k @ '', need database session.''))
                 | Some session \<Rightarrow>
                     (case self_converters self of
                        None \<Rightarrow> Inl (AttributeError ''converters'')
                      | Some converters \<Rightarrow>
                          (case map_of converters (direction_name d) of
                             None \<Rightarrow> Inl (KeyError (direction_name d))
                           | Some converter \<Rightarrow> Inr (Invoked converter))))
            | ColumnProperty k cols \<Rightarrow> Inl (TypeError ''NoneType object is not callable'')
            | OtherProperty k \<Rightarrow> Inl (TypeError ''NoneType object is not callable'')))"

section \<open>Rendering\<close>

text \<open>
  \<^verbatim>\<open>markupsafe.escape\<close> replaces the five characters that are special in HTML.
\<close>

definition escape_char :: "char \<Rightarrow> string" where
  \<open>escape_char c =
     (if c = CHR ''&'' then ''&amp;''
      else if c = CHR ''<'' then ''&lt;''
      else if c = CHR ''>'' then ''&gt;''
      else if c = CHR 0x27 then ''&#39;''
      else if c = CHR 0x22 then ''&#34;''
      else [c])\<close>

definition escape :: "string \<Rightarrow> string" where
  "escape s = concat (map escape_char s)"

text \<open>
  The value of an attribute of a stored instance, as far as \<^verbatim>\<open>td\<close> looks at it: a list,
  set or tuple, given by the \<^verbatim>\<open>str()\<close> of each of its items, or any other object (an
  integer, a string, \<^verbatim>\<open>None\<close>, a related instance), given by its \<^verbatim>\<open>str()\<close>. No value
  that the schema stores has an \<^verbatim>\<open>__html__\<close> method, so \<^verbatim>\<open>escape\<close> escapes that text.
  An instance is the function from the keys of its mapped properties to these values
  (\<^verbatim>\<open>getattr(inst, key)\<close>).
\<close>

datatype pyval = Object string | Collection "string list"

type_synonym pyinstance = "string \<Rightarrow> pyval"

definition ul :: "string list \<Rightarrow> string" where
  "ul items =
     (let texts = map escape items;
          lis = concat (map (\<lambda>text. ''<li>'' @ text @ ''</li>'') texts)
      in ''<ul>'' @ lis @ ''</ul>'')"

text \<open>
  \<^verbatim>\<open>td\<close>: for a collection the function calls itself on \<^verbatim>\<open>ul(obj)\<close>, which is markup:
  not a collection, and \<^verbatim>\<open>escape\<close> returns markup as it is.
\<close>

fun td :: "pyval \<Rightarrow> string" where
  "td (Collection items) = ''<td>'' @ ul items @ ''</td>''"
| "td (Object text) = ''<td>'' @ escape text @ ''</td>''"

definition th_from_property :: "mprop \<Rightarrow> error + string" where
  "th_from_property p =
     (case p of
        RelationshipProperty k d foreign_model \<Rightarrow> Inr (escape foreign_model)
      | ColumnProperty k cols \<Rightarrow>
          (case cols of
             [] \<Rightarrow> Inl IndexError
           | column # rest \<Rightarrow>
               if info column \<noteq> [] \<and> ''th'' \<in> set (map fst (info column))
                  \<and> ''text'' \<in> set (map fst (the (map_of (info column) ''th'')))
               then Inr (the (map_of (the (map_of (info column) ''th'')) ''text''))
               else Inr (column_name column))
      | OtherProperty k \<Rightarrow> Inl (AttributeError ''columns''))"

fun map_result :: "('a \<Rightarrow> error + 'b) \<Rightarrow> 'a list \<Rightarrow> error + 'b list" where
  "map_result f [] = Inr []"
| "map_result f (x # xs) =
     (case f x of
        Inl e \<Rightarrow> Inl e
      | Inr y \<Rightarrow> (case map_result f xs of Inl e \<Rightarrow> Inl e | Inr ys \<Rightarrow> Inr (y # ys)))"

text \<open>
  The loop of \<^verbatim>\<open>html_table\<close> over the instances: each pass calls
  \<^verbatim>\<open>db_session.merge(inst)\<close>, which needs a session, and appends one row.
\<close>

fun body_rows :: "'s option \<Rightarrow> string list \<Rightarrow> pyinstance list \<Rightarrow> error + string list" where
  "body_rows db_session column_keys [] = Inr []"
| "body_rows db_session column_keys (inst # instances) =
     (case db_session of
        None \<Rightarrow> Inl (AttributeError ''merge'')
      | Some session \<Rightarrow>
          (let tds = map (\<lambda>k. td (inst k)) column_keys
           in case body_rows db_session column_keys instances of
                Inl e \<Rightarrow> Inl e
              | Inr rows \<Rightarrow> Inr ((''<tr>'' @ concat tds @ ''</tr>'') # rows)))"

definition html_table :: "model \<Rightarrow> pyinstance list \<Rightarrow> 's option \<Rightarrow> error + string" where
  "html_table model instances db_session =
     (let mapper = model;
          props = attrs mapper;
          column_keys = map key props
      in case map_result th_from_property props of
           Inl e \<Rightarrow> Inl e
         | Inr texts \<Rightarrow>
             (let th_list = concat (map (\<lambda>text. ''<th>'' @ text @ ''</th>'') texts);
                  header_row = ''<tr>'' @ th_list @ ''</tr>''
              in case body_rows db_session column_keys instances of
                   Inl e \<Rightarrow> Inl e
                 | Inr rows \<Rightarrow>
                     Inr (''<table><thead>'' @ header_row @ ''</thead>''
                          @ ''<tbody>'' @ concat rows @ ''</tbody></table>'')))"

section \<open>The view\<close>

fun mapped_class_from_tablename_loop :: "model list \<Rightarrow> string \<Rightarrow> model option" where
  "mapped_class_from_tablename_loop [] name = None"
| "mapped_class_from_tablename_loop (mapper # rest) name =
     (if tablename mapper = name then Some mapper
      else mapped_class_from_tablename_loop rest name)"

definition mapped_class_from_tablename :: "base \<Rightarrow> string \<Rightarrow> model option" where
  "mapped_class_from_tablename b name = mapped_class_from_tablename_loop (mappers b) name"

record MetadataView =
  base_class :: base

text \<open>
  \<^verbatim>\<open>add_pluggables\<close> registers the view under the endpoint \<^verbatim>\<open>tables\<close> with the rules
  \<^verbatim>\<open>/tables/\<close> and \<^verbatim>\<open>/tables/<tablename>\<close>, so within a request of the view
  \<^verbatim>\<open>flask.request.endpoint\<close> is \<^verbatim>\<open>tables\<close> and \<^verbatim>\<open>flask.url_for\<close> with a table name
  builds the second rule (a name of letters, digits and underscores is not quoted).
\<close>

definition request_endpoint :: string where
  "request_endpoint = ''tables''"

definition url_for :: "string \<Rightarrow> string \<Rightarrow> error + string" where
  "url_for endpoint name =
     (if endpoint = ''tables'' then Inr (''/tables/'' @ name) else Inl (BuildError endpoint))"

definition list_element :: "string \<Rightarrow> error + string" where
  \<open>list_element name =
     (let found = mapped_class_from_tablename Base name
      in case url_for request_endpoint name of
           Inl e \<Rightarrow> Inl e
         | Inr url \<Rightarrow>
             (case found of
                None \<Rightarrow> Inl (AttributeError ''__name__'')
              | Some class_ \<Rightarrow>
                  (let text = model_name class_
                   in Inr (''<li><a href="'' @ url @ ''">'' @ text @ ''</a></li>''))))\<close>

definition dispatch_list :: "MetadataView \<Rightarrow> error + string" where
  "dispatch_list self =
     (let metadata = tables (base_class self)
      in case map_result list_element metadata of
           Inl e \<Rightarrow> Inl e
         | Inr elements \<Rightarrow> Inr (''<ul>'' @ concat elements @ ''</ul>''))"

text \<open>
  \<^verbatim>\<open>dispatch_table\<close> reads the instances of the class through a session on the module's
  \<^verbatim>\<open>engine\<close>: the parameter \<open>engine\<close> gives, for the name of each mapped class, what
  \<^verbatim>\<open>session.scalars(sa.select(class_))\<close> yields. \<^verbatim>\<open>sa.select(None)\<close> raises
  \<^verbatim>\<open>ArgumentError\<close>.
\<close>

definition dispatch_table :: "MetadataView \<Rightarrow> (string \<Rightarrow> pyinstance list) \<Rightarrow> string \<Rightarrow> error + string" where
  "dispatch_table self engine name =
     (case mapped_class_from_tablename Base name of
        None \<Rightarrow> Inl (ArgumentError ''select'')
      | Some class_ \<Rightarrow>
          (let session = engine;
               instances = session (model_name class_);
               html = ''<h1>'' @ name @ ''</h1>''
           in case html_table class_ instances (Some session) of
                Inl e \<Rightarrow> Inl e
              | Inr table \<Rightarrow> Inr (html @ table)))"

text \<open>
  \<^verbatim>\<open>dispatch_request\<close>: \<^verbatim>\<open>flask.abort(404)\<close> raises the HTTP exception of that status.
\<close>

definition abort :: "nat \<Rightarrow> error + 'a" where
  "abort status = Inl (HTTPException status)"

definition dispatch_request :: "MetadataView \<Rightarrow> (string \<Rightarrow> pyinstance list) \<Rightarrow> string option \<Rightarrow> error + string" where
  "dispatch_request self engine name =
     (let metadata = tables (base_class self)
      in case name of
           None \<Rightarrow> dispatch_list self
         | Some t \<Rightarrow> if t \<in> set metadata then dispatch_table self engine t else abort 404)"

text \<open>
  The view that \<^verbatim>\<open>add_pluggables\<close> registers, \<^verbatim>\<open>MetadataView.as_view('tables', Base)\<close>, and
  an engine whose tables have no rows.
\<close>

definition tables_view :: MetadataView where
  "tables_view = \<lparr>base_class = Base\<rparr>"

definition no_rows :: "string \<Rightarrow> pyinstance list" where
  "no_rows class_name = []"

section \<open>The seed command\<close>

text \<open>
  The rows of the four tables: \<open>(id, name)\<close> for an account, \<open>(id, name, price)\<close> for an
  item, \<open>(id, account_id)\<close> for an order and \<open>(id, order_id, item_id)\<close> for a row of the
  association table. A database that \<^verbatim>\<open>create_all\<close> has just created has the four tables
  and no row.
\<close>

record database =
  accounts :: "(nat \<times> string) list"
  items :: "(nat \<times> string \<times> int) list"
  orders :: "(nat \<times> nat option) list"
  orders_items :: "(nat \<times> nat option \<times> nat option) list"

definition fresh_database :: database where
  "fresh_database = \<lparr>accounts = [], items = [], orders = [], orders_items = []\<rparr>"

text \<open>
  The objects that \<^verbatim>\<open>init_data\<close> constructs: \<^verbatim>\<open>Account(name=...)\<close>,
  \<^verbatim>\<open>Item(name=..., price=...)\<close> and \<^verbatim>\<open>Order(account=..., items=[...])\<close>, an order holding
  the account and the items it was given. A session has the objects added to it, in the
  order of the calls, and the database of its engine.
\<close>

datatype obj =
    AccountObject string
  | ItemObject string int
  | OrderObject obj "obj list"

record session =
  pending :: "obj list"
  bound :: database

definition add_all :: "obj list \<Rightarrow> session \<Rightarrow> session" where
  "add_all objs s = s\<lparr>pending := pending s @ objs\<rparr>"

definition add :: "obj \<Rightarrow> session \<Rightarrow> session" where
  "add x s = s\<lparr>pending := pending s @ [x]\<rparr>"

text \<open>
  \<^verbatim>\<open>commit\<close> flushes the session. The objects an order refers to are flushed with it when
  they were not added themselves; the tables are written in the order of their foreign
  keys, each object taking the next \<^verbatim>\<open>id\<close> of its table; a second row with the name of
  an account or of an item violates the column's \<^verbatim>\<open>unique\<close> constraint.
\<close>

fun refs :: "obj \<Rightarrow> obj list" where
  "refs (OrderObject account its) = account # its"
| "refs (AccountObject name) = []"
| "refs (ItemObject name price) = []"

definition cascade :: "obj list \<Rightarrow> obj list" where
  "cascade objs = objs @ remdups (filter (\<lambda>x. x \<notin> set objs) (concat (map refs objs)))"

definition next_id :: "nat list \<Rightarrow> nat" where
  "next_id ids = Suc (fold max ids 0)"

fun id_of_name :: "(nat \<times> string) list \<Rightarrow> string \<Rightarrow> nat option" where
  "id_of_name [] name = None"
| "id_of_name ((i, n) # rows) name = (if n = name then Some i else id_of_name rows name)"

fun insert_accounts :: "obj list \<Rightarrow> database \<Rightarrow> error + database" where
  "insert_accounts [] db = Inr db"
| "insert_accounts (AccountObject name # objs) db =
     (if name \<in> set (map snd (accounts db)) then Inl (IntegrityError ''accounts.name'')
      else insert_accounts objs
             (db\<lparr>accounts := accounts db @ [(next_id (map fst (accounts db)), name)]\<rparr>))"
| "insert_accounts (x # objs) db = insert_accounts objs db"

fun insert_items :: "obj list \<Rightarrow> database \<Rightarrow> error + database" where
  "insert_items [] db = Inr db"
| "insert_items (ItemObject name price # objs) db =
     (if name \<in> set (map (\<lambda>(i, n, p). n) (items db)) then Inl (IntegrityError ''items.name'')
      else insert_items objs
             (db\<lparr>items := items db @ [(next_id (map fst (items db)), name, price)]\<rparr>))"
| "insert_items (x # objs) db = insert_items objs db"

fun obj_id :: "database \<Rightarrow> obj \<Rightarrow> nat option" where
  "obj_id db (AccountObject name) = id_of_name (accounts db) name"
| "obj_id db (ItemObject name price) = id_of_name (map (\<lambda>(i, n, p). (i, n)) (items db)) name"
| "obj_id db (OrderObject account its) = None"

fun insert_orders_items :: "nat \<Rightarrow> obj list \<Rightarrow> database \<Rightarrow> database" where
  "insert_orders_items order_id [] db = db"
| "insert_orders_items order_id (item # its) db =
     insert_orders_items order_id its
       (db\<lparr>orders_items :=
             orders_items db
             @ [(next_id (map fst (orders_items db)), Some order_id, obj_id db item)]\<rparr>)"

fun insert_orders :: "obj list \<Rightarrow> database \<Rightarrow> database" where
  "insert_orders [] db = db"
| "insert_orders (OrderObject account its # objs) db =
     (let order_id = next_id (map fst (orders db));
          db = db\<lparr>orders := orders db @ [(order_id, obj_id db account)]\<rparr>
      in insert_orders objs (insert_orders_items order_id its db))"
| "insert_orders (x # objs) db = insert_orders objs db"

definition commit :: "session \<Rightarrow> error + database" where
  "commit s =
     (let objs = cascade (pending s)
      in case insert_accounts objs (bound s) of
           Inl e \<Rightarrow> Inl e
         | Inr db \<Rightarrow>
             (case insert_items objs db of
                Inl e \<Rightarrow> Inl e
              | Inr db \<Rightarrow> Inr (insert_orders objs db)))"

definition init_data :: "database \<Rightarrow> error + database" where
  "init_data engine =
     (let session = \<lparr>pending = [], bound = engine\<rparr>;
          account1 = AccountObject ''account1'';
          account2 = AccountObject ''account2'';
          account3 = AccountObject ''account3'';
          account4 = AccountObject ''account4'';
          session = add_all [account1, account2, account3, account4] session;
          pencil = ItemObject ''Pencil'' 10;
          notebook = ItemObject ''Notebook'' 50;
          eraser = ItemObject ''Eraser'' 15;
          straight_edge = ItemObject ''Straight Edge'' 50;
          protractor = ItemObject ''Protractor'' 50;
          desk = ItemObject ''Desk'' 10000;
          chair = ItemObject ''Chair'' 5000;
          session = add_all [pencil, notebook, eraser, straight_edge, protractor, desk, chair] session;
          session = add (OrderObject account1 [pencil, notebook]) session
      in commit session)"

section \<open>The table class factory\<close>

text \<open>
  \<^verbatim>\<open>model_columns\<close> lists the mapper's \<^verbatim>\<open>(name, prop)\<close> items and loops over them with
  the body \<^verbatim>\<open>pass\<close>; \<^verbatim>\<open>model_table\<close> calls \<^verbatim>\<open>type(type_name, bases, attributes)\<close>.
  The class that \<^verbatim>\<open>type\<close> builds is the record \<open>pytype\<close>: its name, its bases and its
  attribute dictionary.
\<close>

definition model_columns :: "model \<Rightarrow> (string \<times> 'a) list" where
  "model_columns model =
     (let mapper = model;
          properties = map (\<lambda>p. (key p, p)) (attrs mapper);
          field_dict = []
      in foldl (\<lambda>field_dict (name, prop). field_dict) field_dict properties)"

record 'a pytype =
  ty_name :: string
  ty_bases :: "string list"
  ty_dict :: "(string \<times> 'a) list"

definition model_table :: "model \<Rightarrow> string option \<Rightarrow> string list option \<Rightarrow> 'a pytype" where
  "model_table model_class type_name bases =
     (let type_name = (case type_name of None \<Rightarrow> model_name model_class @ ''Table'' | Some n \<Rightarrow> n);
          bases = (case bases of None \<Rightarrow> [''Table''] | Some b \<Rightarrow> b);
          attributes = model_columns model_class
      in \<lparr>ty_name = type_name, ty_bases = bases, ty_dict = attributes\<rparr>)"

section \<open>Counting tags in the rendered HTML\<close>

text \<open>
  The number of positions of a text at which a pattern starts: the number of times a tag
  such as \<^verbatim>\<open><th>\<close> is written in a page.
\<close>

fun occurrences :: "string \<Rightarrow> string \<Rightarrow> nat" where
  "occurrences pat [] = 0"
| "occurrences pat (c # cs) =
     (if take (length pat) (c # cs) = pat then 1 else 0) + occurrences pat cs"

section \<open>Properties of the table class factory\<close>

lemma foldl_pass: "foldl (\<lambda>field_dict (name, prop). field_dict) d xs = d"
  by (induction xs) (auto split: prod.splits)

text \<open>
  C10: for every model class \<^verbatim>\<open>model_columns\<close> returns the empty dictionary, whatever
  the mapped properties are, and the class built by \<^verbatim>\<open>model_table\<close> has no attribute for
  any column: its attribute dictionary is empty, with the default and with explicit type
  name and bases.
\<close>

theorem model_columns_empty:
  "model_columns model = []
   \<and> ty_dict (model_table model type_name bases) = []
   \<and> map_of (ty_dict (model_table model type_name bases)) name = None"
  by (simp add: model_columns_def model_table_def foldl_pass Let_def)

section \<open>Properties of the converter registry\<close>

lemma inspect_unbound: "lookup_global ''inspect'' = Inl (NameError ''inspect'')"
  by (simp add: lookup_global_def module_globals_def)

lemma scan_plain_attributes: "scan_handlers (map plain_attribute names) converters = converters"
  by (induction names arbitrary: converters) (simp_all add: scan_handlers_def plain_attribute_def)

lemma conv_String_plain: "conv_String = plain_attribute ''conv_String''"
  by (simp add: conv_String_def converts_def)

lemma ModelTableConverter_scan: "scan_handlers ModelTableConverter_dir converters = converters"
proof -
  have dir_plain: "ModelTableConverter_dir =
      map plain_attribute
        ([''__class__'', ''__delattr__'', ''__dict__'', ''__dir__'', ''__doc__'', ''__eq__'',
          ''__format__'', ''__ge__'', ''__getattribute__'', ''__getstate__'', ''__gt__'',
          ''__hash__'', ''__init__'', ''__init_subclass__'', ''__le__'', ''__lt__'',
          ''__module__'', ''__ne__'', ''__new__'', ''__reduce__'', ''__reduce_ex__'',
          ''__repr__'', ''__setattr__'', ''__sizeof__'', ''__str__'', ''__subclasshook__'',
          ''__weakref__'']
         @ [''conv_String'', ''convert'', ''get_converter'', ''use_mro''])"
    unfolding ModelTableConverter_dir_def conv_String_plain by simp
  show ?thesis
    unfolding dir_plain by (rule scan_plain_attributes)
qed

text \<open>
  C1 (the code does not do what the claim says): the decorator leaves the handler without
  a \<^verbatim>\<open>_converter_for\<close> attribute, so the scan of \<^verbatim>\<open>__init__\<close> stores nothing, whatever
  dictionary it starts from, and \<^verbatim>\<open>__init__\<close> never assigns \<^verbatim>\<open>self.converters\<close>. For a
  column of the exact type \<^verbatim>\<open>String\<close>, the type \<^verbatim>\<open>conv_String\<close> is declared for,
  \<^verbatim>\<open>get_converter\<close> on a new \<^verbatim>\<open>ModelTableConverter\<close> raises \<^verbatim>\<open>NameError\<close> (with
  \<^verbatim>\<open>use_mro\<close>, the default) or \<^verbatim>\<open>AttributeError\<close> (without) instead of returning the
  handler.
\<close>

theorem converts_registers_nothing:
  "converter_for conv_String = None
   \<and> ModelTableConverter_init None use_mro = (\<lparr>self_use_mro = use_mro, self_converters = None\<rparr>, [])
   \<and> snd (ModelTableConverter_init (Some converters) use_mro) = converters
   \<and> get_converter (fst (ModelTableConverter_init None True)) (string_column ''name'' [])
       = Inl (NameError ''inspect'')
   \<and> get_converter (fst (ModelTableConverter_init None False)) (string_column ''name'' [])
       = Inl (AttributeError ''converters'')"
  by (simp add: conv_String_plain plain_attribute_def ModelTableConverter_init_def init_def
      ModelTableConverter_scan get_converter_def getmro_def inspect_unbound)

text \<open>
  The two loops, on an object with a \<^verbatim>\<open>converters\<close> dictionary: each returns the handler
  of the first class of the list whose key is registered, the first loop under the
  qualified name and the second under the bare name.
\<close>

lemma search_by_module_and_name_first:
  "search_by_module_and_name \<lparr>self_use_mro = m, self_converters = Some converters\<rparr> types
     = Inr (case filter (\<lambda>t. map_of converters (type_string t) \<noteq> None) types of
              [] \<Rightarrow> None
            | t # ts \<Rightarrow> map_of converters (type_string t))"
  by (induction types) (auto split: option.splits)

lemma search_by_name_first:
  "search_by_name \<lparr>self_use_mro = m, self_converters = Some converters\<rparr> types
     = Inr (case filter (\<lambda>t. map_of converters (cls_name t) \<noteq> None) types of
              [] \<Rightarrow> None
            | t # ts \<Rightarrow> map_of converters (cls_name t))"
  by (induction types) (auto split: option.splits)

text \<open>
  C2 (the code does not do what the claim says): with \<^verbatim>\<open>use_mro\<close> set, the only setting
  under which \<^verbatim>\<open>get_converter\<close> asks for the ancestry chain, the call raises
  \<^verbatim>\<open>NameError\<close> for every column and every content of \<^verbatim>\<open>converters\<close>, because the module
  never imports \<^verbatim>\<open>inspect\<close>: no candidate is looked up. In particular a \<^verbatim>\<open>Text\<close> column
  does not resolve to a handler registered for its ancestor \<^verbatim>\<open>String\<close>, by bare or by
  qualified name.
\<close>

theorem get_converter_mro_unbound:
  "get_converter \<lparr>self_use_mro = True, self_converters = converters\<rparr> column
     = Inl (NameError ''inspect'')
   \<and> get_converter
         \<lparr>self_use_mro = True,
          self_converters = Some [(''String'', conv_String), (''sql.sqltypes.String'', conv_String)]\<rparr>
         \<lparr>column_name = ''body'', column_type = Text_class, column_type_bases = Text_bases, info = []\<rparr>
       = Inl (NameError ''inspect'')"
  by (simp add: get_converter_def getmro_def inspect_unbound)

text \<open>
  C3 (the code does not do what the claim says): \<^verbatim>\<open>get_converter\<close> never raises
  \<^verbatim>\<open>ModelTableConversionError\<close>, for any object, column and message. For an
  \<^verbatim>\<open>Integer\<close> column and no registered type name it raises \<^verbatim>\<open>NameError\<close> on a new
  converter, \<^verbatim>\<open>AttributeError\<close> on a new converter without \<^verbatim>\<open>use_mro\<close>, and
  \<^verbatim>\<open>TypeError\<close>, from the format specification of the message, when a caller has
  assigned an empty \<^verbatim>\<open>converters\<close> dictionary.
\<close>

theorem get_converter_never_conversion_error:
  "get_converter self column \<noteq> Inl (ModelTableConversionError msg)
   \<and> get_converter (fst (ModelTableConverter_init None True)) (integer_column ''id'' [])
       = Inl (NameError ''inspect'')
   \<and> get_converter (fst (ModelTableConverter_init None False)) (integer_column ''id'' [])
       = Inl (AttributeError ''converters'')
   \<and> get_converter \<lparr>self_use_mro = False, self_converters = Some []\<rparr> (integer_column ''id'' [])
       = Inl (TypeError ''unsupported format string passed to type.__format__'')"
proof -
  have "get_converter self column \<noteq> Inl (ModelTableConversionError msg)"
    by (auto simp add: get_converter_def getmro_def inspect_unbound no_converter_found_def
        format_class_def split: sum.splits option.splits list.splits)
  moreover have "get_converter (fst (ModelTableConverter_init None True)) (integer_column ''id'' [])
       = Inl (NameError ''inspect'')"
    by (simp add: ModelTableConverter_init_def init_def get_converter_def getmro_def inspect_unbound)
  moreover have "get_converter (fst (ModelTableConverter_init None False)) (integer_column ''id'' [])
       = Inl (AttributeError ''converters'')"
    by (simp add: ModelTableConverter_init_def init_def get_converter_def)
  moreover have "get_converter \<lparr>self_use_mro = False, self_converters = Some []\<rparr> (integer_column ''id'' [])
       = Inl (TypeError ''unsupported format string passed to type.__format__'')"
    by (simp add: get_converter_def no_converter_found_def format_class_def)
  ultimately show ?thesis by blast
qed

text \<open>
  C4: for every relationship property (a property with a \<^verbatim>\<open>direction\<close>), \<^verbatim>\<open>convert\<close>
  without a database session raises \<^verbatim>\<open>ModelTableConversionError\<close> with a message that
  names the property's key; the result is the exception, so no handler has been called.
  This holds for every converter object, model, mapper and \<^verbatim>\<open>field_args\<close>.
\<close>

theorem convert_relationship_without_session:
  "has_direction p \<Longrightarrow>
   convert self model mapper p field_args None
     = Inl (ModelTableConversionError (''Cannot convert field '' @ key p @ '', need database session.''))"
  by (cases p) (simp_all add: convert_def)

theorem convert_relationship_without_session_witness:
  "has_direction (RelationshipProperty ''orders'' ONETOMANY ''Order'')
   \<and> convert \<lparr>self_use_mro = True, self_converters = Some [(''ONETOMANY'', conv_String)]\<rparr>
         Account Account (RelationshipProperty ''orders'' ONETOMANY ''Order'') None (None :: unit option)
       = Inl (ModelTableConversionError ''Cannot convert field orders, need database session.'')"
  using convert_relationship_without_session
          [of "RelationshipProperty ''orders'' ONETOMANY ''Order''"
              "\<lparr>self_use_mro = True, self_converters = Some [(''ONETOMANY'', conv_String)]\<rparr>"
              Account Account None]
  by simp

section \<open>Properties of the seed command\<close>

text \<open>
  C9: on a database without rows \<^verbatim>\<open>init_data\<close> commits exactly 4 accounts, 7 items and
  1 order, and the order refers to exactly 2 items (Pencil and Notebook, through 2 rows of
  the association table) and to account1. The result is a function of the database alone,
  so every run on a database without rows gives these rows and these counts.
\<close>

theorem init_data_fresh:
  "\<exists>db. init_data fresh_database = Inr db
     \<and> length (accounts db) = 4 \<and> length (items db) = 7 \<and> length (orders db) = 1
     \<and> orders db = [(1, Some 1)]
     \<and> length (filter (\<lambda>(i, order_id, item_id). order_id = Some 1) (orders_items db)) = 2
     \<and> db =
         \<lparr>accounts = [(1, ''account1''), (2, ''account2''), (3, ''account3''), (4, ''account4'')],
          items = [(1, ''Pencil'', 10), (2, ''Notebook'', 50), (3, ''Eraser'', 15),
                   (4, ''Straight Edge'', 50), (5, ''Protractor'', 50), (6, ''Desk'', 10000),
                   (7, ''Chair'', 5000)],
          orders = [(1, Some 1)],
          orders_items = [(1, Some 1, Some 1), (2, Some 1, Some 2)]\<rparr>"
  by (simp add: init_data_def fresh_database_def add_all_def add_def commit_def cascade_def
      next_id_def Let_def)

section \<open>Properties of the rendering\<close>

lemma escape_plain: "set s \<inter> set ''&<>'' = {} \<Longrightarrow> CHR 0x27 \<notin> set s \<Longrightarrow> CHR 0x22 \<notin> set s
    \<Longrightarrow> escape s = s"
  by (induction s) (auto simp add: escape_def escape_char_def)

lemma dict_has_key: "k \<in> fst ` set d \<longleftrightarrow> map_of d k \<noteq> None"
  by (simp add: map_of_eq_None_iff)

lemma th_Item: "map_result th_from_property (attrs Item) = Inr [''id'', ''Name'', ''Price'']"
  by (simp add: Item_def th_from_property_def integer_column_def string_column_def)

lemma th_Account: "map_result th_from_property (attrs Account) = Inr [''Order'', ''id'', ''Name'']"
  by (simp add: Account_def th_from_property_def integer_column_def string_column_def
      escape_def escape_char_def)

lemma th_Order:
  "map_result th_from_property (attrs Order) = Inr [''Account'', ''Item'', ''id'', ''account_id'']"
  by (simp add: Order_def th_from_property_def integer_column_def escape_def escape_char_def)

lemma th_OrderItem:
  "map_result th_from_property (attrs OrderItem) = Inr [''id'', ''order_id'', ''item_id'']"
  by (simp add: OrderItem_def th_from_property_def integer_column_def)

text \<open>
  C8, as the code has it: the label of a relationship property is the escaped name of the
  referenced class; the label of a column property is the text declared under
  \<^verbatim>\<open>info['th']['text']\<close> of its first column when there is one, and otherwise the name
  of that column (not the key of the property). For the four classes of the schema every
  column has the name of its property and no class name needs escaping, so the labels
  are the ones listed.
\<close>

theorem th_from_property_label:
  "th_from_property (RelationshipProperty k d foreign_model) = Inr (escape foreign_model)
   \<and> th_from_property (ColumnProperty k (column # rest)) =
       Inr (case map_of (info column) ''th'' of
              None \<Rightarrow> column_name column
            | Some th \<Rightarrow> (case map_of th ''text'' of None \<Rightarrow> column_name column | Some label \<Rightarrow> label))
   \<and> map_result th_from_property (attrs Item) = Inr [''id'', ''Name'', ''Price'']
   \<and> map_result th_from_property (attrs Account) = Inr [''Order'', ''id'', ''Name'']
   \<and> map_result th_from_property (attrs Order) = Inr [''Account'', ''Item'', ''id'', ''account_id'']
   \<and> map_result th_from_property (attrs OrderItem) = Inr [''id'', ''order_id'', ''item_id'']"
proof -
  have "th_from_property (ColumnProperty k (column # rest)) =
       Inr (case map_of (info column) ''th'' of
              None \<Rightarrow> column_name column
            | Some th \<Rightarrow> (case map_of th ''text'' of None \<Rightarrow> column_name column | Some label \<Rightarrow> label))"
    by (auto simp add: th_from_property_def dict_has_key split: option.splits)
  then show ?thesis
    by (simp add: th_Item th_Account th_Order th_OrderItem) (simp add: th_from_property_def)
qed

theorem th_from_property_column_name:
  "th_from_property (ColumnProperty ''user_id'' [integer_column ''uid'' []]) = Inr ''uid''
   \<and> key (ColumnProperty ''user_id'' [integer_column ''uid'' []]) = ''user_id''"
  by (simp add: th_from_property_def integer_column_def)

section \<open>Properties of the rendered table\<close>

lemma occurrences_skip:
  "pat \<noteq> [] \<Longrightarrow> hd pat \<notin> set s \<Longrightarrow> occurrences pat (s @ rest) = occurrences pat rest"
  by (induction s) (auto simp: neq_Nil_conv)

lemma escape_char_no_lt: "CHR ''<'' \<notin> set (escape_char c)"
  by (simp add: escape_char_def)

lemma escape_no_lt: "CHR ''<'' \<notin> set (escape s)"
  by (induction s) (simp_all add: escape_def escape_char_no_lt)

lemma th_list_th:
  "\<forall>t \<in> set texts. CHR ''<'' \<notin> set t \<Longrightarrow>
   occurrences ''<th>'' (concat (map (\<lambda>text. ''<th>'' @ text @ ''</th>'') texts) @ rest)
     = length texts + occurrences ''<th>'' rest"
  by (induction texts) (simp_all add: occurrences_skip)

lemma th_list_tr:
  "\<forall>t \<in> set texts. CHR ''<'' \<notin> set t \<Longrightarrow>
   occurrences ''<tr>'' (concat (map (\<lambda>text. ''<th>'' @ text @ ''</th>'') texts) @ rest)
     = occurrences ''<tr>'' rest"
  by (induction texts) (simp_all add: occurrences_skip)

lemma li_list_th:
  "occurrences ''<th>'' (concat (map (\<lambda>text. ''<li>'' @ text @ ''</li>'') (map escape xs)) @ rest)
     = occurrences ''<th>'' rest"
  by (induction xs) (simp_all add: occurrences_skip escape_no_lt)

lemma li_list_tr:
  "occurrences ''<tr>'' (concat (map (\<lambda>text. ''<li>'' @ text @ ''</li>'') (map escape xs)) @ rest)
     = occurrences ''<tr>'' rest"
  by (induction xs) (simp_all add: occurrences_skip escape_no_lt)

lemma ul_th: "occurrences ''<th>'' (ul xs @ rest) = occurrences ''<th>'' rest"
proof -
  let ?lis = "concat (map (\<lambda>text. ''<li>'' @ text @ ''</li>'') (map escape xs))"
  have "occurrences ''<th>'' (ul xs @ rest) = occurrences ''<th>'' (?lis @ (''</ul>'' @ rest))"
    by (simp add: ul_def)
  also have "\<dots> = occurrences ''<th>'' (''</ul>'' @ rest)"
    by (rule li_list_th)
  also have "\<dots> = occurrences ''<th>'' rest"
    by simp
  finally show ?thesis .
qed

lemma ul_tr: "occurrences ''<tr>'' (ul xs @ rest) = occurrences ''<tr>'' rest"
proof -
  let ?lis = "concat (map (\<lambda>text. ''<li>'' @ text @ ''</li>'') (map escape xs))"
  have "occurrences ''<tr>'' (ul xs @ rest) = occurrences ''<tr>'' (?lis @ (''</ul>'' @ rest))"
    by (simp add: ul_def)
  also have "\<dots> = occurrences ''<tr>'' (''</ul>'' @ rest)"
    by (rule li_list_tr)
  also have "\<dots> = occurrences ''<tr>'' rest"
    by simp
  finally show ?thesis .
qed

lemma td_th: "occurrences ''<th>'' (td v @ rest) = occurrences ''<th>'' rest"
  by (cases v) (simp_all add: occurrences_skip escape_no_lt ul_th)

lemma td_tr: "occurrences ''<tr>'' (td v @ rest) = occurrences ''<tr>'' rest"
  by (cases v) (simp_all add: occurrences_skip escape_no_lt ul_tr)

lemma tds_th:
  "occurrences ''<th>'' (concat (map (\<lambda>k. td (inst k)) column_keys) @ rest)
     = occurrences ''<th>'' rest"
  by (induction column_keys) (simp_all add: td_th)

lemma tds_tr:
  "occurrences ''<tr>'' (concat (map (\<lambda>k. td (inst k)) column_keys) @ rest)
     = occurrences ''<tr>'' rest"
  by (induction column_keys) (simp_all add: td_tr)

lemma body_rows_session:
  "body_rows (Some session) column_keys instances
     = Inr (map (\<lambda>inst. ''<tr>'' @ concat (map (\<lambda>k. td (inst k)) column_keys) @ ''</tr>'')
              instances)"
  by (induction instances) simp_all

lemma rows_tr:
  "occurrences ''<tr>''
     (concat (map (\<lambda>inst. ''<tr>'' @ concat (map (\<lambda>k. td (inst k)) column_keys) @ ''</tr>'')
                instances) @ rest)
     = length instances + occurrences ''<tr>'' rest"
  by (induction instances) (simp_all add: tds_tr)

lemma rows_th:
  "occurrences ''<th>''
     (concat (map (\<lambda>inst. ''<tr>'' @ concat (map (\<lambda>k. td (inst k)) column_keys) @ ''</tr>'')
                instances) @ rest)
     = occurrences ''<th>'' rest"
  by (induction instances) (simp_all add: tds_th)

lemma length_map_result: "map_result f xs = Inr ys \<Longrightarrow> length ys = length xs"
  by (induction xs arbitrary: ys) (auto split: sum.splits)

lemma html_table_counts:
  assumes texts: "map_result th_from_property (attrs model) = Inr texts"
    and clean: "\<forall>t \<in> set texts. CHR ''<'' \<notin> set t"
  shows "\<exists>html. html_table model instances (Some session) = Inr html
           \<and> occurrences ''<th>'' html = length (attrs model)
           \<and> occurrences ''<tr>'' html = Suc (length instances)"
proof -
  define th_list where "th_list = concat (map (\<lambda>text. ''<th>'' @ text @ ''</th>'') texts)"
  define body where "body =
    concat (map (\<lambda>inst. ''<tr>'' @ concat (map (\<lambda>k. td (inst k)) (map key (attrs model))) @ ''</tr>'')
              instances)"
  define html where "html =
    ''<table><thead><tr>'' @ (th_list @ (''</tr></thead><tbody>'' @ (body @ ''</tbody></table>'')))"
  have th1: "occurrences ''<th>'' (th_list @ r) = length texts + occurrences ''<th>'' r" for r
    unfolding th_list_def by (rule th_list_th[OF clean])
  have tr1: "occurrences ''<tr>'' (th_list @ r) = occurrences ''<tr>'' r" for r
    unfolding th_list_def by (rule th_list_tr[OF clean])
  have th2: "occurrences ''<th>'' (body @ r) = occurrences ''<th>'' r" for r
    unfolding body_def by (rule rows_th)
  have tr2: "occurrences ''<tr>'' (body @ r) = length instances + occurrences ''<tr>'' r" for r
    unfolding body_def by (rule rows_tr)
  have "html_table model instances (Some session) = Inr html"
    by (simp add: html_table_def texts body_rows_session html_def th_list_def body_def)
  moreover have "occurrences ''<th>'' html = length (attrs model)"
    by (simp add: html_def th1 th2 length_map_result[OF texts])
  moreover have "occurrences ''<tr>'' html = Suc (length instances)"
    by (simp add: html_def tr1 tr2)
  ultimately show ?thesis by blast
qed

lemma dispatch_table_counts:
  assumes found: "mapped_class_from_tablename Base name = Some cls"
    and texts: "map_result th_from_property (attrs cls) = Inr texts"
    and clean: "\<forall>t \<in> set texts. CHR ''<'' \<notin> set t"
    and name: "CHR ''<'' \<notin> set name"
  shows "\<exists>html. dispatch_table self engine name = Inr html
           \<and> occurrences ''<th>'' html = length (attrs cls)
           \<and> occurrences ''<tr>'' html = Suc (length (engine (model_name cls)))"
proof -
  from html_table_counts[OF texts clean, of "engine (model_name cls)" engine]
  obtain table where table: "html_table cls (engine (model_name cls)) (Some engine) = Inr table"
    and th: "occurrences ''<th>'' table = length (attrs cls)"
    and tr: "occurrences ''<tr>'' table = Suc (length (engine (model_name cls)))"
    by (elim exE conjE)
  have page: "dispatch_table self engine name = Inr (''<h1>'' @ (name @ (''</h1>'' @ table)))"
    by (simp add: dispatch_table_def found table)
  have page_th: "occurrences ''<th>'' (''<h1>'' @ (name @ (''</h1>'' @ table))) = length (attrs cls)"
    using name by (simp add: occurrences_skip th)
  have page_tr: "occurrences ''<tr>'' (''<h1>'' @ (name @ (''</h1>'' @ table)))
      = Suc (length (engine (model_name cls)))"
    using name by (simp add: occurrences_skip tr)
  from page page_th page_tr show ?thesis
    by (intro exI conjI)
qed

lemma tablename_simps:
  "tablename Item = ''items''" "tablename Account = ''accounts''"
  "tablename Order = ''orders''" "tablename OrderItem = ''orders_items''"
  by (simp_all add: Item_def Account_def Order_def OrderItem_def)

lemma mapped_class_simps:
  "mapped_class_from_tablename Base ''items'' = Some Item"
  "mapped_class_from_tablename Base ''accounts'' = Some Account"
  "mapped_class_from_tablename Base ''orders'' = Some Order"
  "mapped_class_from_tablename Base ''orders_items'' = Some OrderItem"
  by (simp_all add: mapped_class_from_tablename_def Base_def tablename_simps)

lemma dispatch_table_known:
  assumes "cls \<in> set (mappers Base)"
  shows "\<exists>html. dispatch_table self engine (tablename cls) = Inr html
           \<and> occurrences ''<th>'' html = length (attrs cls)
           \<and> occurrences ''<tr>'' html = Suc (length (engine (model_name cls)))"
proof -
  from assms consider "cls = Item" | "cls = Account" | "cls = Order" | "cls = OrderItem"
    by (auto simp add: Base_def)
  then show ?thesis
  proof cases
    case 1
    show ?thesis unfolding 1 tablename_simps
      by (rule dispatch_table_counts[OF mapped_class_simps(1) th_Item]) simp_all
  next
    case 2
    show ?thesis unfolding 2 tablename_simps
      by (rule dispatch_table_counts[OF mapped_class_simps(2) th_Account]) simp_all
  next
    case 3
    show ?thesis unfolding 3 tablename_simps
      by (rule dispatch_table_counts[OF mapped_class_simps(3) th_Order]) simp_all
  next
    case 4
    show ?thesis unfolding 4 tablename_simps
      by (rule dispatch_table_counts[OF mapped_class_simps(4) th_OrderItem]) simp_all
  qed
qed

text \<open>
  C7: for each of the four mapped classes, whatever instances the session yields for it,
  the page of its table is returned and has exactly one \<^verbatim>\<open><th>\<close> cell for each mapped
  property of the class and, after the one header row, exactly one \<^verbatim>\<open><tr>\<close> row for
  each instance.
\<close>

theorem table_header_cells_and_rows:
  "cls \<in> set (mappers Base) \<Longrightarrow>
   \<exists>html. dispatch_table \<lparr>base_class = Base\<rparr> engine (tablename cls) = Inr html
     \<and> occurrences ''<th>'' html = length (attrs cls)
     \<and> occurrences ''<tr>'' html = Suc (length (engine (model_name cls)))"
  by (rule dispatch_table_known)

theorem table_header_cells_and_rows_witness:
  "Order \<in> set (mappers Base)
   \<and> (\<exists>html. dispatch_table \<lparr>base_class = Base\<rparr>
                (\<lambda>name. [\<lambda>k. Object ''1'', \<lambda>k. Collection [''<Item 1>'', ''<Item 2>'']]) ''orders''
              = Inr html
          \<and> occurrences ''<th>'' html = 4 \<and> occurrences ''<tr>'' html = 3)"
proof -
  have known: "Order \<in> set (mappers Base)"
    by (simp add: Base_def)
  have props: "length (attrs Order) = 4"
    by (simp add: Order_def)
  from table_header_cells_and_rows
         [OF known, of "\<lambda>name. [\<lambda>k. Object ''1'', \<lambda>k. Collection [''<Item 1>'', ''<Item 2>'']]"]
  obtain html where
    "dispatch_table \<lparr>base_class = Base\<rparr>
       (\<lambda>name. [\<lambda>k. Object ''1'', \<lambda>k. Collection [''<Item 1>'', ''<Item 2>'']]) (tablename Order)
     = Inr html"
    and "occurrences ''<th>'' html = length (attrs Order)"
    and "occurrences ''<tr>'' html = Suc (length [\<lambda>k. Object ''1'', \<lambda>k::string. Collection [''<Item 1>'', ''<Item 2>'']])"
    by (elim exE conjE)
  then have "dispatch_table \<lparr>base_class = Base\<rparr>
       (\<lambda>name. [\<lambda>k. Object ''1'', \<lambda>k. Collection [''<Item 1>'', ''<Item 2>'']]) ''orders''
     = Inr html \<and> occurrences ''<th>'' html = 4 \<and> occurrences ''<tr>'' html = 3"
    by (simp add: tablename_simps props)
  with known show ?thesis
    by blast
qed

section \<open>Properties of the view\<close>

lemma dispatch_list_Base:
  \<open>dispatch_list \<lparr>base_class = Base\<rparr> =
     Inr ''<ul><li><a href="/tables/items">Item</a></li><li><a href="/tables/accounts">Account</a></li><li><a href="/tables/orders">Order</a></li><li><a href="/tables/orders_items">OrderItem</a></li></ul>''\<close>
  by (simp add: dispatch_list_def Base_def list_element_def mapped_class_from_tablename_def
      url_for_def request_endpoint_def Item_def Account_def Order_def OrderItem_def)

text \<open>
  C6: the list page has exactly one link for each of the four mapped classes of the
  schema, four links in all: each class name is the text of exactly one link, whatever
  the order of the links.
\<close>

theorem dispatch_list_one_link_per_entity:
  "\<exists>html. dispatch_list \<lparr>base_class = Base\<rparr> = Inr html
     \<and> map model_name (mappers Base) = [''Item'', ''Account'', ''Order'', ''OrderItem'']
     \<and> occurrences ''<a '' html = length (mappers Base)
     \<and> occurrences ''</a>'' html = length (mappers Base)
     \<and> occurrences ''>Item</a>'' html = 1
     \<and> occurrences ''>Account</a>'' html = 1
     \<and> occurrences ''>Order</a>'' html = 1
     \<and> occurrences ''>OrderItem</a>'' html = 1"
  unfolding dispatch_list_Base
  by (simp add: Base_def Item_def Account_def Order_def OrderItem_def)

text \<open>
  C5, as the code has it: \<^verbatim>\<open>dispatch_request\<close> has three outcomes. Without a name it
  returns the list page. With the name of a table of the metadata (\<^verbatim>\<open>items\<close>,
  \<^verbatim>\<open>accounts\<close>, \<^verbatim>\<open>orders\<close>, \<^verbatim>\<open>orders_items\<close>) it returns the page of that table, for
  every content of the database. With any other name it raises the HTTP exception of
  status 404 through \<^verbatim>\<open>flask.abort\<close>; the view does not catch it.
\<close>

theorem dispatch_request_outcomes:
  "(\<exists>html. dispatch_request tables_view engine None = Inr html \<and> dispatch_list tables_view = Inr html)
   \<and> (name \<in> set (tables Base) \<longrightarrow>
        (\<exists>html. dispatch_request tables_view engine (Some name) = Inr html
           \<and> dispatch_table tables_view engine name = Inr html))
   \<and> (name \<notin> set (tables Base) \<longrightarrow>
        dispatch_request tables_view engine (Some name) = Inl (HTTPException 404))"
proof (intro conjI impI)
  show "\<exists>html. dispatch_request tables_view engine None = Inr html \<and> dispatch_list tables_view = Inr html"
    by (simp add: dispatch_request_def tables_view_def dispatch_list_Base)
next
  assume known: "name \<in> set (tables Base)"
  have classes: "set (mappers Base) = {Item, Account, Order, OrderItem}"
    by (simp add: Base_def)
  from known have "name = tablename Item \<or> name = tablename Account
      \<or> name = tablename Order \<or> name = tablename OrderItem"
    by (simp add: Base_def tablename_simps)
  with classes obtain cls where cls: "cls \<in> set (mappers Base)" and name: "name = tablename cls"
    by blast
  from dispatch_table_known[OF cls, of tables_view engine]
  obtain html where "dispatch_table tables_view engine name = Inr html"
    unfolding name by (elim exE conjE)
  with known show "\<exists>html. dispatch_request tables_view engine (Some name) = Inr html
           \<and> dispatch_table tables_view engine name = Inr html"
    by (simp add: dispatch_request_def tables_view_def)
next
  assume "name \<notin> set (tables Base)"
  then show "dispatch_request tables_view engine (Some name) = Inl (HTTPException 404)"
    by (simp add: dispatch_request_def tables_view_def abort_def)
qed

theorem dispatch_request_outcomes_witness:
  "''orders'' \<in> set (tables Base)
   \<and> (\<exists>html. dispatch_request tables_view no_rows (Some ''orders'') = Inr html
         \<and> dispatch_table tables_view no_rows ''orders'' = Inr html)
   \<and> ''nothing'' \<notin> set (tables Base)
   \<and> dispatch_request tables_view no_rows (Some ''nothing'') = Inl (HTTPException 404)"
  using dispatch_request_outcomes [of no_rows "''orders''"]
        dispatch_request_outcomes [of no_rows "''nothing''"]
  by (simp add: Base_def)

theorem dispatch_request_entity_name:
  "''Account'' \<in> set (map model_name (mappers Base))
   \<and> dispatch_request tables_view no_rows (Some ''Account'') = Inl (HTTPException 404)"
  by (simp add: dispatch_request_def tables_view_def abort_def Base_def
      Item_def Account_def Order_def OrderItem_def)

end
